theory Spec2Isabelle
  imports Main "HOL-Library.Sublist"
begin

section \<open>The Groups component of catan-tracker\<close>

text \<open>
  A shallow embedding of \<^verbatim>\<open>src/components/Groups.tsx\<close>. The component keeps eight
  React state variables; every handler is modelled as a function from the state of the
  render it runs in to the state after all its \<^verbatim>\<open>set...\<close> calls have been applied,
  together with the list of backend operations it issued, in the order of issue. What an
  \<^verbatim>\<open>await\<close> delivers is an input of the model. A handler is run to completion
  before the next event is taken.
\<close>

subsection \<open>JavaScript strings\<close>

text \<open>
  Strings are lists of characters with code points below 256. \<^verbatim>\<open>String.prototype.trim\<close>
  strips white space and line terminators from both ends; below 256 these are TAB, LF, VT,
  FF, CR, SPACE and NBSP. \<^verbatim>\<open>toLowerCase\<close> maps A-Z and the upper-case letters of
  Latin-1 (U+00C0 to U+00DE without the multiplication sign U+00D7) 32 places up.
\<close>

definition isWhiteSpace :: "char \<Rightarrow> bool" where
  "isWhiteSpace c = ((of_char c :: nat) \<in> {9, 10, 11, 12, 13, 32, 160})"

definition trim :: "string \<Rightarrow> string" where
  "trim s = rev (dropWhile isWhiteSpace (rev (dropWhile isWhiteSpace s)))"

definition lowerChar :: "char \<Rightarrow> char" where
  "lowerChar c =
     (let n = (of_char c :: nat)
      in if (65 \<le> n \<and> n \<le> 90) \<or> (192 \<le> n \<and> n \<le> 222 \<and> n \<noteq> 215)
         then char_of (n + 32) else c)"

definition toLowerCase :: "string \<Rightarrow> string" where
  "toLowerCase s = map lowerChar s"

text \<open>Truthiness of a string that may be null or undefined: only a non-empty string is truthy.\<close>

fun truthy :: "string option \<Rightarrow> bool" where
  "truthy None = False"
| "truthy (Some s) = (s \<noteq> [])"

subsection \<open>Data model\<close>

text \<open>
  The fields \<^verbatim>\<open>id\<close> and \<^verbatim>\<open>name\<close> carry the record's name as a suffix. A field that
  may be null or absent is an option. \<^verbatim>\<open>group_players\<close> is the embedded join relation
  as the backend returns it; \<^verbatim>\<open>players\<close> of a group is filled in by \<^verbatim>\<open>fetchUserGroups\<close>.
  The group embedded in a join row and the player embedded in a \<^verbatim>\<open>group_players\<close> entry
  are to-one resources that the backend may deliver as null, so both are options. Group ids
  are the integers the backend assigns.
\<close>

record Player =
  id_player :: string
  user_id :: "string option"
  name_player :: string
  avatar_url :: "string option"

record GroupPlayer =
  player_id :: string
  players_joined :: "Player option"

record Group =
  id_group :: int
  name_group :: string
  owner_id :: "string option"
  created_at :: "string option"
  group_players :: "GroupPlayer list option"
  players_group :: "Player option list option"

record MemberRow =
  group_id :: int
  groups_joined :: "Group option"

record Groups =
  isModalOpen :: bool
  groupName :: string
  errorMessage :: string
  searchQuery :: string
  players :: "Player list"
  selectedPlayers :: "Player list"
  loading :: bool
  userGroups :: "Group list"

definition initial :: Groups where
  "initial = \<lparr> isModalOpen = False, groupName = [], errorMessage = [], searchQuery = [],
     players = [], selectedPlayers = [], loading = False, userGroups = [] \<rparr>"

subsection \<open>The backend client\<close>

text \<open>
  The operations a client of the backend can issue: reading the session, and the four
  verbs on a table. A promise is either rejected or resolved; a resolved query carries
  either an error (and no data) or data.
\<close>

datatype filter = NoFilter | Eq string string | ILike string string

datatype payload = GroupRow string string | JoinRow int string

datatype backend_op =
    GetSession
  | SelectFrom string filter
  | InsertInto string "payload list"
  | UpdateIn string filter "payload list"
  | DeleteFrom string filter

datatype 'a awaited = Rejected | Resolved 'a

datatype 'a response = Failure | Success 'a

fun isWrite :: "backend_op \<Rightarrow> bool" where
  "isWrite GetSession = False"
| "isWrite (SelectFrom t f) = False"
| "isWrite (InsertInto t rows) = True"
| "isWrite (UpdateIn t f rows) = True"
| "isWrite (DeleteFrom t f) = True"

fun isReadOrInsert :: "backend_op \<Rightarrow> bool" where
  "isReadOrInsert GetSession = True"
| "isReadOrInsert (SelectFrom t f) = True"
| "isReadOrInsert (InsertInto t rows) = True"
| "isReadOrInsert (UpdateIn t f rows) = False"
| "isReadOrInsert (DeleteFrom t f) = False"

subsection \<open>Selection management\<close>

definition closeModal :: "Groups \<Rightarrow> Groups" where
  "closeModal s = s\<lparr> isModalOpen := False, groupName := [], searchQuery := [],
     selectedPlayers := [] \<rparr>"

definition handleAddPlayer :: "Player \<Rightarrow> Groups \<Rightarrow> Groups" where
  "handleAddPlayer player s =
     (if \<not> list_ex (\<lambda>p. id_player p = id_player player) (selectedPlayers s)
      then s\<lparr> selectedPlayers := selectedPlayers s @ [player] \<rparr>
      else s)"

definition handleRemovePlayer :: "string \<Rightarrow> Groups \<Rightarrow> Groups" where
  "handleRemovePlayer playerId s =
     s\<lparr> selectedPlayers := filter (\<lambda>p. id_player p \<noteq> playerId) (selectedPlayers s) \<rparr>"

definition selectionDistinct :: "Groups \<Rightarrow> bool" where
  "selectionDistinct s = distinct (map id_player (selectedPlayers s))"

subsection \<open>Fetching the user's groups\<close>

text \<open>
  \<^verbatim>\<open>fetchUserGroups\<close> reads the session, then issues two queries: the groups owned by
  the user, and the join rows of the user with their embedded group. A query that
  resolves with an error leaves its data null. The steps after the queries carry the names of
  the source's local variables. The function has no \<^verbatim>\<open>try\<close> block: reading a property
  of a null embedded group throws a TypeError, and then \<^verbatim>\<open>setUserGroups\<close> is not reached.
\<close>

datatype 'a thrown = TypeError | Returned 'a

record FetchGroupsEnv =
  sessionReply :: "string option response awaited"
  ownerReply :: "Group list response awaited"
  memberReply :: "MemberRow list response awaited"

definition memberGroupList :: "MemberRow list response \<Rightarrow> Group option list" where
  "memberGroupList memberGroups =
     (case memberGroups of Failure \<Rightarrow> [] | Success rows \<Rightarrow> map groups_joined rows)"

definition allGroups :: "Group list response \<Rightarrow> Group option list \<Rightarrow> Group option list" where
  "allGroups ownerGroups memberList =
     (case ownerGroups of
        Failure \<Rightarrow> memberList
      | Success owned \<Rightarrow> map Some owned @ memberList)"

text \<open>
  \<^verbatim>\<open>acc.find((g) => g.id === group.id)\<close>: the callback runs on the entries of \<^verbatim>\<open>acc\<close> in
  order until one matches; it reads \<^verbatim>\<open>g.id\<close> first, then \<^verbatim>\<open>group.id\<close>. On an empty \<^verbatim>\<open>acc\<close> it does
  not run at all. The result says whether an entry was found.
\<close>

fun accFind :: "Group option list \<Rightarrow> Group option \<Rightarrow> bool thrown" where
  "accFind [] grp = Returned False"
| "accFind (None # acc) grp = TypeError"
| "accFind (Some g # acc) None = TypeError"
| "accFind (Some g # acc) (Some grp) =
     (if id_group g = id_group grp then Returned True else accFind acc (Some grp))"

text \<open>The \<^verbatim>\<open>reduce\<close> that builds \<^verbatim>\<open>uniqueGroups\<close>, from the accumulator \<^verbatim>\<open>acc\<close>.\<close>

fun reduceUnique :: "Group option list \<Rightarrow> Group option list \<Rightarrow> Group option list thrown" where
  "reduceUnique acc [] = Returned acc"
| "reduceUnique acc (grp # rest) =
     (case accFind acc grp of
        TypeError \<Rightarrow> TypeError
      | Returned found \<Rightarrow> reduceUnique (if \<not> found then acc @ [grp] else acc) rest)"

definition uniqueGroups :: "Group option list \<Rightarrow> Group option list thrown" where
  "uniqueGroups groups = reduceUnique [] groups"

definition withPlayers :: "Group \<Rightarrow> Group" where
  "withPlayers grp =
     grp\<lparr> players_group :=
       Some (case group_players grp of
               None \<Rightarrow> []
             | Some joined \<Rightarrow> map players_joined joined) \<rparr>"

fun groupsWithPlayers :: "Group option list \<Rightarrow> Group list thrown" where
  "groupsWithPlayers [] = Returned []"
| "groupsWithPlayers (None # rest) = TypeError"
| "groupsWithPlayers (Some grp # rest) =
     (case groupsWithPlayers rest of
        TypeError \<Rightarrow> TypeError
      | Returned mapped \<Rightarrow> Returned (withPlayers grp # mapped))"

definition fetchUserGroups :: "FetchGroupsEnv \<Rightarrow> Groups \<Rightarrow> Groups \<times> backend_op list" where
  "fetchUserGroups env s =
     (case sessionReply env of
        Rejected \<Rightarrow> (s, [GetSession])
      | Resolved Failure \<Rightarrow> (s, [GetSession])
      | Resolved (Success None) \<Rightarrow> (s, [GetSession])
      | Resolved (Success (Some userId)) \<Rightarrow>
          (let ownerQuery = SelectFrom ''groups'' (Eq ''owner_id'' userId);
               memberQuery = SelectFrom ''group_players'' (Eq ''player_id'' userId)
           in case ownerReply env of
                Rejected \<Rightarrow> (s, [GetSession, ownerQuery])
              | Resolved ownerGroups \<Rightarrow>
                  (case memberReply env of
                     Rejected \<Rightarrow> (s, [GetSession, ownerQuery, memberQuery])
                   | Resolved memberGroups \<Rightarrow>
                       (case uniqueGroups
                               (allGroups ownerGroups (memberGroupList memberGroups)) of
                          TypeError \<Rightarrow> (s, [GetSession, ownerQuery, memberQuery])
                        | Returned unique \<Rightarrow>
                            (case groupsWithPlayers unique of
                               TypeError \<Rightarrow> (s, [GetSession, ownerQuery, memberQuery])
                             | Returned mapped \<Rightarrow>
                                 (s\<lparr> userGroups := mapped \<rparr>,
                                  [GetSession, ownerQuery, memberQuery]))))))"

subsection \<open>Fetching players\<close>

text \<open>
  The players query carries an \<^verbatim>\<open>ilike\<close> filter when the search string is not empty.
  For each player with a truthy \<^verbatim>\<open>user_id\<close> one row of the users table is looked up by
  that id: the lookup yields no row, or a row whose \<^verbatim>\<open>avatar_url\<close> may be null. The
  lookups are all issued, in the order of the list; \<^verbatim>\<open>Promise.all\<close> is rejected as
  soon as one of them is, and then the \<^verbatim>\<open>catch\<close> block leaves the player list as it was.
\<close>

record FetchPlayersEnv =
  playersReply :: "Player list response awaited"
  avatarReply :: "string \<Rightarrow> string option option awaited"

definition orNull :: "string option \<Rightarrow> string option" where
  "orNull v = (if truthy v then v else None)"

definition withAvatar :: "(string \<Rightarrow> string option option awaited) \<Rightarrow> Player \<Rightarrow> Player awaited" where
  "withAvatar lookup player =
     (case user_id player of
        None \<Rightarrow> Resolved player
      | Some uid \<Rightarrow>
          if uid \<noteq> [] then
            (case lookup uid of
               Rejected \<Rightarrow> Rejected
             | Resolved userData \<Rightarrow>
                 Resolved (player\<lparr> avatar_url :=
                   orNull (case userData of None \<Rightarrow> None | Some url \<Rightarrow> url) \<rparr>))
          else Resolved player)"

fun promiseAll :: "'a awaited list \<Rightarrow> 'a list awaited" where
  "promiseAll [] = Resolved []"
| "promiseAll (Rejected # ps) = Rejected"
| "promiseAll (Resolved x # ps) =
     (case promiseAll ps of Rejected \<Rightarrow> Rejected | Resolved xs \<Rightarrow> Resolved (x # xs))"

definition avatarQueries :: "Player list \<Rightarrow> backend_op list" where
  "avatarQueries data =
     concat (map (\<lambda>player. case user_id player of
                              None \<Rightarrow> []
                            | Some uid \<Rightarrow> if uid \<noteq> [] then [SelectFrom ''users'' (Eq ''id'' uid)] else [])
               data)"

definition fetchPlayers :: "string \<Rightarrow> FetchPlayersEnv \<Rightarrow> Groups \<Rightarrow> Groups \<times> backend_op list" where
  "fetchPlayers query env s =
     (let s0 = s\<lparr> loading := True \<rparr>;
          playersQuery = SelectFrom ''players''
            (if query \<noteq> [] then ILike ''name'' (''%'' @ query @ ''%'') else NoFilter)
      in case playersReply env of
           Rejected \<Rightarrow> (s0\<lparr> loading := False \<rparr>, [playersQuery])
         | Resolved Failure \<Rightarrow> (s0\<lparr> loading := False \<rparr>, [playersQuery])
         | Resolved (Success data) \<Rightarrow>
             (case promiseAll (map (withAvatar (avatarReply env)) data) of
                Rejected \<Rightarrow> (s0\<lparr> loading := False \<rparr>, playersQuery # avatarQueries data)
              | Resolved playersWithAvatars \<Rightarrow>
                  (s0\<lparr> players := playersWithAvatars, loading := False \<rparr>,
                   playersQuery # avatarQueries data)))"

definition openModal :: "FetchPlayersEnv \<Rightarrow> Groups \<Rightarrow> Groups \<times> backend_op list" where
  "openModal env s = fetchPlayers [] env (s\<lparr> isModalOpen := True \<rparr>)"

definition handleSearchChange :: "string \<Rightarrow> FetchPlayersEnv \<Rightarrow> Groups \<Rightarrow> Groups \<times> backend_op list" where
  "handleSearchChange query env s = fetchPlayers query env (s\<lparr> searchQuery := query \<rparr>)"

text \<open>The \<^verbatim>\<open>onChange\<close> handler of the group-name input.\<close>

definition onGroupNameChange :: "string \<Rightarrow> Groups \<Rightarrow> Groups" where
  "onGroupNameChange v s =
     (if errorMessage s \<noteq> [] then s\<lparr> groupName := v, errorMessage := [] \<rparr>
      else s\<lparr> groupName := v \<rparr>)"

subsection \<open>Creating a group\<close>

text \<open>
  \<^verbatim>\<open>handleCreateGroup\<close> reads \<^verbatim>\<open>groupName\<close>, \<^verbatim>\<open>userGroups\<close> and
  \<^verbatim>\<open>selectedPlayers\<close> of the render it was created in. The session is read outside the
  \<^verbatim>\<open>try\<close> block; inside it, a rejected insert and \<^verbatim>\<open>groupData[0].id\<close> on an empty
  result both reach the \<^verbatim>\<open>catch\<close> block. The final \<^verbatim>\<open>fetchUserGroups()\<close> is not
  awaited, so nothing it does reaches the \<^verbatim>\<open>catch\<close> block.
\<close>

record CreateGroupEnv =
  createSessionReply :: "string option response awaited"
  groupInsertReply :: "Group list response awaited"
  joinInsertReply :: "unit response awaited"
  refreshEnv :: FetchGroupsEnv

definition isDuplicateName :: "Groups \<Rightarrow> bool" where
  "isDuplicateName s =
     list_ex (\<lambda>g. toLowerCase (trim (name_group g)) = toLowerCase (trim (groupName s)))
       (userGroups s)"

definition unexpectedError :: "Groups \<Rightarrow> Groups" where
  "unexpectedError s = s\<lparr> errorMessage := ''An unexpected error occurred. Please try again.'' \<rparr>"

definition createdAndRefresh ::
  "CreateGroupEnv \<Rightarrow> Groups \<Rightarrow> backend_op list \<Rightarrow> Groups \<times> backend_op list" where
  "createdAndRefresh env s issued =
     (let (s', reads) = fetchUserGroups (refreshEnv env) (closeModal (s\<lparr> errorMessage := [] \<rparr>))
      in (s', issued @ reads))"

definition handleCreateGroup :: "CreateGroupEnv \<Rightarrow> Groups \<Rightarrow> Groups \<times> backend_op list" where
  "handleCreateGroup env s =
     (if groupName s = [] then (s\<lparr> errorMessage := ''Please enter a group name.'' \<rparr>, [])
      else if isDuplicateName s then
        (s\<lparr> errorMessage :=
            ''You are already in a group with that name. Please choose a different name.'' \<rparr>, [])
      else
        (let s1 = s\<lparr> errorMessage := [] \<rparr>
         in case createSessionReply env of
              Rejected \<Rightarrow> (s1, [GetSession])
            | Resolved Failure \<Rightarrow>
                (s1\<lparr> errorMessage := ''Error retrieving session. Please try again.'' \<rparr>,
                 [GetSession])
            | Resolved (Success None) \<Rightarrow>
                (s1\<lparr> errorMessage := ''No session found. Please sign in again.'' \<rparr>, [GetSession])
            | Resolved (Success (Some ownerId)) \<Rightarrow>
                (let groupInsert = InsertInto ''groups'' [GroupRow (groupName s) ownerId]
                 in case groupInsertReply env of
                      Rejected \<Rightarrow> (unexpectedError s1, [GetSession, groupInsert])
                    | Resolved Failure \<Rightarrow>
                        (s1\<lparr> errorMessage := ''Failed to create group. Please try again.'' \<rparr>,
                         [GetSession, groupInsert])
                    | Resolved (Success []) \<Rightarrow> (unexpectedError s1, [GetSession, groupInsert])
                    | Resolved (Success (created # rest)) \<Rightarrow>
                        (let groupId = id_group created
                         in if selectedPlayers s \<noteq> [] then
                              (let groupPlayersData =
                                     map (\<lambda>player. JoinRow groupId (id_player player))
                                       (selectedPlayers s);
                                   joinInsert = InsertInto ''group_players'' groupPlayersData
                               in case joinInsertReply env of
                                    Rejected \<Rightarrow>
                                      (unexpectedError s1, [GetSession, groupInsert, joinInsert])
                                  | Resolved Failure \<Rightarrow>
                                      createdAndRefresh env
                                        (s1\<lparr> errorMessage :=
                                            ''Group created, but failed to add some players.'' \<rparr>)
                                        [GetSession, groupInsert, joinInsert]
                                  | Resolved (Success u) \<Rightarrow>
                                      createdAndRefresh env s1
                                        [GetSession, groupInsert, joinInsert])
                            else createdAndRefresh env s1 [GetSession, groupInsert]))))"

subsection \<open>The component as a machine\<close>

text \<open>
  The events of the component: the effect that runs when it is mounted, and the handlers
  bound to its buttons and inputs, each with what the backend delivers to it.
\<close>

datatype event =
    Mount FetchGroupsEnv
  | OpenModal FetchPlayersEnv
  | CloseModal
  | SearchChange string FetchPlayersEnv
  | AddPlayer Player
  | RemovePlayer string
  | GroupNameChange string
  | CreateGroup CreateGroupEnv

fun step :: "event \<Rightarrow> Groups \<Rightarrow> Groups \<times> backend_op list" where
  "step (Mount env) s = fetchUserGroups env s"
| "step (OpenModal env) s = openModal env s"
| "step CloseModal s = (closeModal s, [])"
| "step (SearchChange query env) s = handleSearchChange query env s"
| "step (AddPlayer player) s = (handleAddPlayer player s, [])"
| "step (RemovePlayer playerId) s = (handleRemovePlayer playerId s, [])"
| "step (GroupNameChange v) s = (onGroupNameChange v s, [])"
| "step (CreateGroup env) s = handleCreateGroup env s"

fun run :: "event list \<Rightarrow> Groups \<Rightarrow> Groups \<times> backend_op list" where
  "run [] s = (s, [])"
| "run (e # es) s =
     (let (s1, issued) = step e s; (s2, later) = run es s1 in (s2, issued @ later))"

subsection \<open>Example inputs\<close>

definition alice :: Player where
  "alice = \<lparr> id_player = ''p1'', user_id = Some ''u1'', name_player = ''Alice'',
     avatar_url = None \<rparr>"

definition bob :: Player where
  "bob = \<lparr> id_player = ''p2'', user_id = None, name_player = ''Bob'', avatar_url = None \<rparr>"

definition carol :: Player where
  "carol = \<lparr> id_player = ''p3'', user_id = Some [], name_player = ''Carol'',
     avatar_url = Some ''c.png'' \<rparr>"

definition twoSelected :: Groups where
  "twoSelected = initial\<lparr> selectedPlayers := [alice, bob] \<rparr>"

definition settlers :: Group where
  "settlers = \<lparr> id_group = 1, name_group = ''Settlers '', owner_id = Some ''u1'',
     created_at = None, group_players = None, players_group = Some [] \<rparr>"

definition knights :: Group where
  "knights = \<lparr> id_group = 7, name_group = ''Knights'', owner_id = Some ''u1'',
     created_at = None, group_players = None, players_group = None \<rparr>"

definition seafarers :: Group where
  "seafarers = \<lparr> id_group = 9, name_group = ''Seafarers'', owner_id = Some ''u2'',
     created_at = Some ''2025-01-01'',
     group_players = Some [\<lparr> player_id = ''p1'', players_joined = Some alice \<rparr>],
     players_group = None \<rparr>"

definition duplicateEntry :: Groups where
  "duplicateEntry = initial\<lparr> isModalOpen := True, groupName := '' SETTLERS'',
     userGroups := [settlers] \<rparr>"

definition freshName :: Groups where
  "freshName = initial\<lparr> isModalOpen := True, groupName := ''Knights'',
     selectedPlayers := [alice, bob], userGroups := [settlers] \<rparr>"

definition blankName :: Groups where
  "blankName = initial\<lparr> isModalOpen := True, groupName := ''   '' \<rparr>"

definition noRefresh :: FetchGroupsEnv where
  "noRefresh = \<lparr> sessionReply = Resolved (Success None), ownerReply = Rejected,
     memberReply = Rejected \<rparr>"

definition bothQueries :: FetchGroupsEnv where
  "bothQueries = \<lparr> sessionReply = Resolved (Success (Some ''u1'')),
     ownerReply = Resolved (Success [settlers, knights]),
     memberReply = Resolved (Success
       [\<lparr> group_id = 7, groups_joined = Some knights \<rparr>,
        \<lparr> group_id = 9, groups_joined = Some seafarers \<rparr>]) \<rparr>"

definition createOk :: CreateGroupEnv where
  "createOk = \<lparr> createSessionReply = Resolved (Success (Some ''u1'')),
     groupInsertReply = Resolved (Success [knights]),
     joinInsertReply = Resolved (Success ()), refreshEnv = noRefresh \<rparr>"

definition sessionLost :: CreateGroupEnv where
  "sessionLost = createOk\<lparr> createSessionReply := Resolved Failure \<rparr>"

definition joinFails :: CreateGroupEnv where
  "joinFails = createOk\<lparr> joinInsertReply := Resolved Failure \<rparr>"

definition staleRefresh :: FetchGroupsEnv where
  "staleRefresh = \<lparr> sessionReply = Resolved (Success (Some ''u1'')),
     ownerReply = Resolved Failure, memberReply = Resolved Failure \<rparr>"

definition nullEmbedded :: FetchGroupsEnv where
  "nullEmbedded = \<lparr> sessionReply = Resolved (Success (Some ''u1'')),
     ownerReply = Resolved (Success [settlers]),
     memberReply = Resolved (Success [\<lparr> group_id = 9, groups_joined = None \<rparr>]) \<rparr>"

definition createStale :: CreateGroupEnv where
  "createStale = createOk\<lparr> refreshEnv := staleRefresh \<rparr>"

definition sessionRejected :: CreateGroupEnv where
  "sessionRejected = createOk\<lparr> createSessionReply := Rejected \<rparr>"

definition sameNameTwice :: "event list" where
  "sameNameTwice = [GroupNameChange ''Knights'', CreateGroup createStale,
     GroupNameChange ''Knights'', CreateGroup createStale]"

definition avatarsFound :: FetchPlayersEnv where
  "avatarsFound = \<lparr> playersReply = Resolved (Success [alice, bob, carol]),
     avatarReply = (\<lambda>uid. if uid = ''u1'' then Resolved (Some (Some ''a.png''))
                          else Resolved None) \<rparr>"

definition emptyAvatar :: FetchPlayersEnv where
  "emptyAvatar = \<lparr> playersReply = Resolved (Success [alice]),
     avatarReply = (\<lambda>uid. Resolved (Some (Some []))) \<rparr>"

definition sampleRun :: "event list" where
  "sampleRun = [Mount noRefresh, OpenModal avatarsFound, GroupNameChange ''Knights'',
     AddPlayer alice, CreateGroup createOk]"

subsection \<open>The avatar lookup as the specification words it\<close>

text \<open>
  The specification's sentence on the stored player, for comparison with \<^verbatim>\<open>withAvatar\<close>:
  a player with an owning-user identifier is stored with \<^verbatim>\<open>avatar_url\<close> set to the
  \<^verbatim>\<open>avatar_url\<close> of the users-table row, or to null when the lookup yields none; any other
  player is stored unchanged.
\<close>

definition statedPlayer :: "(string \<Rightarrow> string option option awaited) \<Rightarrow> Player \<Rightarrow> Player" where
  "statedPlayer lookup player =
     (case user_id player of
        None \<Rightarrow> player
      | Some uid \<Rightarrow>
          if uid = [] then player
          else player\<lparr> avatar_url :=
                 (case lookup uid of Resolved (Some url) \<Rightarrow> url | _ \<Rightarrow> None) \<rparr>)"

section \<open>Properties\<close>

subsection \<open>The selection list\<close>

lemma selected_after_add:
  "selectedPlayers (handleAddPlayer p s) =
     (if id_player p \<in> id_player ` set (selectedPlayers s) then selectedPlayers s
      else selectedPlayers s @ [p])"
proof -
  have "list_ex (\<lambda>q. id_player q = id_player p) (selectedPlayers s)
          \<longleftrightarrow> id_player p \<in> id_player ` set (selectedPlayers s)"
    unfolding list_ex_iff by (metis image_iff)
  then show ?thesis
    by (simp add: handleAddPlayer_def)
qed

lemma selected_after_remove:
  "selectedPlayers (handleRemovePlayer i s) =
     filter (\<lambda>p. id_player p \<noteq> i) (selectedPlayers s)"
  by (simp add: handleRemovePlayer_def)

lemma filter_absent_id:
  "i \<notin> id_player ` set xs \<Longrightarrow> filter (\<lambda>p. id_player p \<noteq> i) xs = xs"
  by (induction xs) auto

lemma add_keeps_distinct: "selectionDistinct s \<Longrightarrow> selectionDistinct (handleAddPlayer p s)"
  by (auto simp: selectionDistinct_def selected_after_add)

lemma remove_keeps_distinct:
  "selectionDistinct s \<Longrightarrow> selectionDistinct (handleRemovePlayer i s)"
  by (simp add: selectionDistinct_def selected_after_remove distinct_map_filter)

lemma fetchUserGroups_selected:
  "selectedPlayers (fst (fetchUserGroups env s)) = selectedPlayers s"
  by (simp add: fetchUserGroups_def Let_def
      split: awaited.splits response.splits option.splits thrown.splits)

lemma fetchPlayers_selected:
  "selectedPlayers (fst (fetchPlayers query env s)) = selectedPlayers s"
  by (simp add: fetchPlayers_def Let_def split: awaited.splits response.splits)

lemma handleCreateGroup_selected:
  "selectedPlayers (fst (handleCreateGroup env s)) = selectedPlayers s
   \<or> selectedPlayers (fst (handleCreateGroup env s)) = []"
  by (simp add: handleCreateGroup_def Let_def createdAndRefresh_def split_beta
      fetchUserGroups_selected closeModal_def unexpectedError_def
      split: awaited.splits response.splits option.splits list.splits)

lemma step_keeps_distinct: "selectionDistinct s \<Longrightarrow> selectionDistinct (fst (step e s))"
proof (cases e)
  case (CreateGroup env)
  assume "selectionDistinct s"
  with handleCreateGroup_selected [of env s] CreateGroup show ?thesis
    by (auto simp: selectionDistinct_def)
qed (simp_all add: add_keeps_distinct remove_keeps_distinct,
     simp_all add: selectionDistinct_def fetchUserGroups_selected openModal_def
      handleSearchChange_def fetchPlayers_selected closeModal_def onGroupNameChange_def)

lemma run_keeps_distinct: "selectionDistinct s \<Longrightarrow> selectionDistinct (fst (run es s))"
proof (induction es arbitrary: s)
  case Nil
  then show ?case by simp
next
  case (Cons e es)
  have "fst (run (e # es) s) = fst (run es (fst (step e s)))"
    by (simp add: split_beta)
  with Cons.IH [OF step_keeps_distinct [OF Cons.prems, of e]] show ?case
    by simp
qed

text \<open>
  Claim C8. The selected-players list never holds two entries with the same player id:
  the initial list has none, and \<^verbatim>\<open>handleAddPlayer\<close> (which changes nothing when the id
  is already selected), \<^verbatim>\<open>handleRemovePlayer\<close> and \<^verbatim>\<open>closeModal\<close> (which empties
  the list) keep it so; hence it holds after every sequence of events of the component.
\<close>

theorem selection_ids_distinct:
  "selectionDistinct initial
   \<and> (selectionDistinct s \<longrightarrow> selectionDistinct (handleAddPlayer p s))
   \<and> (id_player p \<in> id_player ` set (selectedPlayers s) \<longrightarrow> handleAddPlayer p s = s)
   \<and> (selectionDistinct s \<longrightarrow> selectionDistinct (handleRemovePlayer i s))
   \<and> selectionDistinct (closeModal s) \<and> selectedPlayers (closeModal s) = []
   \<and> selectionDistinct (fst (run es initial))"
proof -
  have init: "selectionDistinct initial"
    by (simp add: selectionDistinct_def initial_def)
  have add: "selectionDistinct s \<longrightarrow> selectionDistinct (handleAddPlayer p s)"
    by (simp add: add_keeps_distinct)
  have noop: "id_player p \<in> id_player ` set (selectedPlayers s) \<longrightarrow> handleAddPlayer p s = s"
    by (simp add: handleAddPlayer_def list_ex_iff) (metis image_iff)
  have rem: "selectionDistinct s \<longrightarrow> selectionDistinct (handleRemovePlayer i s)"
    by (simp add: remove_keeps_distinct)
  have close: "selectionDistinct (closeModal s) \<and> selectedPlayers (closeModal s) = []"
    by (simp add: selectionDistinct_def closeModal_def)
  have reach: "selectionDistinct (fst (run es initial))"
    using init by (rule run_keeps_distinct)
  from init add noop rem close reach show ?thesis by blast
qed

theorem selection_ids_distinct_witness:
  "selectionDistinct twoSelected
   \<and> selectionDistinct (handleAddPlayer carol twoSelected)
   \<and> id_player alice \<in> id_player ` set (selectedPlayers twoSelected)
   \<and> handleAddPlayer alice twoSelected = twoSelected
   \<and> selectionDistinct (handleRemovePlayer ''p1'' twoSelected)"
proof -
  have d: "selectionDistinct twoSelected"
    by (simp add: selectionDistinct_def twoSelected_def initial_def alice_def bob_def)
  have m: "id_player alice \<in> id_player ` set (selectedPlayers twoSelected)"
    by (simp add: twoSelected_def)
  from d m selection_ids_distinct [of twoSelected carol "''p1''" "[]"]
    selection_ids_distinct [of twoSelected alice "''p1''" "[]"]
  show ?thesis by blast
qed

lemma count_list_filter_keep:
  "P p \<Longrightarrow> count_list (filter P xs) p = count_list xs p"
  by (induction xs) auto

text \<open>
  Claim C10. \<^verbatim>\<open>handleRemovePlayer\<close> removes exactly the entries with the given id and
  keeps the others in their order: the new list is a subsequence of the old one, holds the
  entries with another id and no others, each as often as before. It changes nothing when
  the id is not selected, and it undoes \<^verbatim>\<open>handleAddPlayer\<close> of a player whose id was
  not selected.
\<close>

theorem handleRemovePlayer_exact:
  "subseq (selectedPlayers (handleRemovePlayer i s)) (selectedPlayers s)
   \<and> set (selectedPlayers (handleRemovePlayer i s))
       = {p \<in> set (selectedPlayers s). id_player p \<noteq> i}
   \<and> (\<forall>p. id_player p \<noteq> i \<longrightarrow>
         count_list (selectedPlayers (handleRemovePlayer i s)) p
           = count_list (selectedPlayers s) p)
   \<and> (i \<notin> id_player ` set (selectedPlayers s) \<longrightarrow> handleRemovePlayer i s = s)
   \<and> (id_player q \<notin> id_player ` set (selectedPlayers s) \<longrightarrow>
         handleRemovePlayer (id_player q) (handleAddPlayer q s) = s)"
proof -
  have sub: "subseq (selectedPlayers (handleRemovePlayer i s)) (selectedPlayers s)"
    by (simp add: selected_after_remove)
  have mem: "set (selectedPlayers (handleRemovePlayer i s))
               = {p \<in> set (selectedPlayers s). id_player p \<noteq> i}"
    by (simp add: selected_after_remove)
  have cnt: "\<forall>p. id_player p \<noteq> i \<longrightarrow>
         count_list (selectedPlayers (handleRemovePlayer i s)) p
           = count_list (selectedPlayers s) p"
    by (simp add: selected_after_remove count_list_filter_keep)
  have idem: "i \<notin> id_player ` set (selectedPlayers s) \<longrightarrow> handleRemovePlayer i s = s"
    by (simp add: handleRemovePlayer_def filter_absent_id)
  have rt: "id_player q \<notin> id_player ` set (selectedPlayers s) \<longrightarrow>
         handleRemovePlayer (id_player q) (handleAddPlayer q s) = s"
  proof
    assume a: "id_player q \<notin> id_player ` set (selectedPlayers s)"
    then have "\<not> list_ex (\<lambda>p. id_player p = id_player q) (selectedPlayers s)"
      unfolding list_ex_iff by (metis image_iff)
    then have "handleAddPlayer q s = s\<lparr> selectedPlayers := selectedPlayers s @ [q] \<rparr>"
      by (simp add: handleAddPlayer_def)
    with a show "handleRemovePlayer (id_player q) (handleAddPlayer q s) = s"
      by (simp add: handleRemovePlayer_def filter_absent_id)
  qed
  from sub mem cnt idem rt show ?thesis by blast
qed

theorem handleRemovePlayer_exact_witness:
  "id_player carol \<notin> id_player ` set (selectedPlayers twoSelected)
   \<and> handleRemovePlayer ''p3'' twoSelected = twoSelected
   \<and> handleRemovePlayer (id_player carol) (handleAddPlayer carol twoSelected) = twoSelected
   \<and> id_player alice \<noteq> ''p2''
   \<and> count_list (selectedPlayers (handleRemovePlayer ''p2'' twoSelected)) alice = 1"
  using handleRemovePlayer_exact [of "''p3''" twoSelected carol]
    handleRemovePlayer_exact [of "''p2''" twoSelected carol]
  by (simp add: twoSelected_def alice_def bob_def carol_def)

subsection \<open>Creating a group\<close>

lemma isDuplicateName_iff:
  "isDuplicateName s \<longleftrightarrow>
     (\<exists>g \<in> set (userGroups s).
        toLowerCase (trim (name_group g)) = toLowerCase (trim (groupName s)))"
  by (simp add: isDuplicateName_def list_ex_iff)

lemma fetchUserGroups_reads: "filter isWrite (snd (fetchUserGroups env s)) = []"
  by (simp add: fetchUserGroups_def Let_def
      split: awaited.splits response.splits option.splits thrown.splits)

lemma createdAndRefresh_trace:
  "snd (createdAndRefresh env s issued) =
     issued @ snd (fetchUserGroups (refreshEnv env) (closeModal (s\<lparr> errorMessage := [] \<rparr>)))"
  by (simp add: createdAndRefresh_def split_beta)

lemma names_agree: "toLowerCase (trim ''Settlers '') = toLowerCase (trim '' SETTLERS'')"
  by code_simp

lemma names_differ: "toLowerCase (trim ''Settlers '') \<noteq> toLowerCase (trim ''Knights'')"
  by code_simp

lemma freshName_passes: "groupName freshName \<noteq> [] \<and> \<not> isDuplicateName freshName"
  by (simp add: freshName_def isDuplicateName_def settlers_def names_differ)

lemma create_writes_session:
  assumes "groupName s \<noteq> []" and "\<not> isDuplicateName s"
    and "createSessionReply env = Resolved (Success (Some ownerId))"
  shows "filter isWrite (snd (handleCreateGroup env s)) =
     InsertInto ''groups'' [GroupRow (groupName s) ownerId] #
       (case groupInsertReply env of
          Resolved (Success (created # rest)) \<Rightarrow>
            if selectedPlayers s \<noteq> []
            then [InsertInto ''group_players''
                    (map (\<lambda>player. JoinRow (id_group created) (id_player player))
                       (selectedPlayers s))]
            else []
        | _ \<Rightarrow> [])"
  using assms
  by (simp add: handleCreateGroup_def Let_def createdAndRefresh_trace fetchUserGroups_reads
      unexpectedError_def split: awaited.splits response.splits list.splits)

lemma create_stops:
  assumes "groupName s = [] \<or> isDuplicateName s
           \<or> createSessionReply env = Resolved Failure
           \<or> createSessionReply env = Resolved (Success None)
           \<or> createSessionReply env = Rejected"
  shows "filter isWrite (snd (handleCreateGroup env s)) = []
         \<and> fst (handleCreateGroup env s)
             = s\<lparr> errorMessage := errorMessage (fst (handleCreateGroup env s)) \<rparr>"
  using assms by (auto simp: handleCreateGroup_def)

lemma session_cases:
  "r = Rejected \<or> r = Resolved Failure \<or> r = Resolved (Success None)
   \<or> (\<exists>ownerId. r = Resolved (Success (Some ownerId)))"
proof (cases r)
  case Rejected
  then show ?thesis by simp
next
  case (Resolved x)
  then show ?thesis
  proof (cases x)
    case Failure
    with Resolved show ?thesis by simp
  next
    case (Success y)
    with Resolved show ?thesis by (cases y) simp_all
  qed
qed

lemma create_stops_iff:
  "filter isWrite (snd (handleCreateGroup env s)) = [] \<longleftrightarrow>
     groupName s = [] \<or> isDuplicateName s
     \<or> createSessionReply env = Resolved Failure
     \<or> createSessionReply env = Resolved (Success None)
     \<or> createSessionReply env = Rejected"
proof
  assume w: "filter isWrite (snd (handleCreateGroup env s)) = []"
  show "groupName s = [] \<or> isDuplicateName s
     \<or> createSessionReply env = Resolved Failure
     \<or> createSessionReply env = Resolved (Success None)
     \<or> createSessionReply env = Rejected"
  proof (rule ccontr)
    assume n: "\<not> (groupName s = [] \<or> isDuplicateName s
     \<or> createSessionReply env = Resolved Failure
     \<or> createSessionReply env = Resolved (Success None)
     \<or> createSessionReply env = Rejected)"
    with session_cases [of "createSessionReply env"] obtain ownerId
      where "createSessionReply env = Resolved (Success (Some ownerId))"
      by blast
    with n have "filter isWrite (snd (handleCreateGroup env s)) \<noteq> []"
      by (simp add: create_writes_session)
    with w show False by simp
  qed
next
  assume "groupName s = [] \<or> isDuplicateName s
     \<or> createSessionReply env = Resolved Failure
     \<or> createSessionReply env = Resolved (Success None)
     \<or> createSessionReply env = Rejected"
  then show "filter isWrite (snd (handleCreateGroup env s)) = []"
    using create_stops by blast
qed

lemma groups_insert_shape:
  assumes "InsertInto ''groups'' rows \<in> set (snd (handleCreateGroup env s))"
  shows "\<not> isDuplicateName s \<and> (\<exists>ownerId. rows = [GroupRow (groupName s) ownerId])"
proof -
  from assms
  have m: "InsertInto ''groups'' rows \<in> set (filter isWrite (snd (handleCreateGroup env s)))"
    by simp
  then have "filter isWrite (snd (handleCreateGroup env s)) \<noteq> []"
    by (metis empty_iff empty_set)
  then have n: "groupName s \<noteq> []" "\<not> isDuplicateName s"
    and "\<not> (createSessionReply env = Resolved Failure
     \<or> createSessionReply env = Resolved (Success None)
     \<or> createSessionReply env = Rejected)"
    using create_stops_iff [of env s] by blast+
  with session_cases [of "createSessionReply env"] obtain ownerId
    where o: "createSessionReply env = Resolved (Success (Some ownerId))"
    by blast
  from m have "rows = [GroupRow (groupName s) ownerId]"
    unfolding create_writes_session [OF n o]
    by (auto split: awaited.splits response.splits list.splits if_splits)
  with n show ?thesis by blast
qed

lemma create_frame:
  "filter isWrite (snd (handleCreateGroup env s)) = [] \<Longrightarrow>
   fst (handleCreateGroup env s) = s\<lparr> errorMessage := errorMessage (fst (handleCreateGroup env s)) \<rparr>"
  using create_stops_iff [of env s] create_stops [of s env] by blast

text \<open>
  Claim C1, as the specification states it, fails in its conclusion: the check of
  \<^verbatim>\<open>handleCreateGroup\<close> is against the group list the component has stored, and the
  refresh after a creation is not awaited and may bring nothing in. When both queries of
  that refresh resolve with an error, the stored list stays empty, and entering the same
  name again creates a second group of that name for the same owner.
\<close>

theorem same_name_created_twice_counterexample:
  "filter isWrite (snd (run sameNameTwice initial)) =
     [InsertInto ''groups'' [GroupRow ''Knights'' ''u1''],
      InsertInto ''groups'' [GroupRow ''Knights'' ''u1'']]"
  by (simp add: sameNameTwice_def initial_def createStale_def createOk_def staleRefresh_def
      knights_def onGroupNameChange_def handleCreateGroup_def isDuplicateName_def
      createdAndRefresh_def closeModal_def fetchUserGroups_def memberGroupList_def
      allGroups_def uniqueGroups_def Let_def)

text \<open>
  Claim C1, amended. Whenever the entered group name, trimmed and lowercased, equals the
  trimmed lowercased name of a group in the group list the component has stored,
  \<^verbatim>\<open>handleCreateGroup\<close> sets an error message and returns without any backend
  operation, whatever the backend would have answered; nothing else of the state changes.
  Hence every insert into \<^verbatim>\<open>groups\<close> that the handler issues is of the single row
  with the entered name, and that name matches, case-insensitively and trimmed, the name
  of no group in the stored list.
\<close>

theorem duplicate_name_guard:
  "((\<exists>g \<in> set (userGroups s).
        toLowerCase (trim (name_group g)) = toLowerCase (trim (groupName s))) \<longrightarrow>
      errorMessage (fst (handleCreateGroup env s)) \<noteq> []
      \<and> snd (handleCreateGroup env s) = []
      \<and> fst (handleCreateGroup env s)
          = s\<lparr> errorMessage := errorMessage (fst (handleCreateGroup env s)) \<rparr>)
   \<and> (\<forall>rows. InsertInto ''groups'' rows \<in> set (snd (handleCreateGroup env s)) \<longrightarrow>
         (\<exists>ownerId. rows = [GroupRow (groupName s) ownerId])
         \<and> (\<forall>g \<in> set (userGroups s).
               toLowerCase (trim (name_group g)) \<noteq> toLowerCase (trim (groupName s))))"
proof -
  have a: "errorMessage (fst (handleCreateGroup env s)) \<noteq> []
      \<and> snd (handleCreateGroup env s) = []
      \<and> fst (handleCreateGroup env s)
          = s\<lparr> errorMessage := errorMessage (fst (handleCreateGroup env s)) \<rparr>"
    if "\<exists>g \<in> set (userGroups s).
        toLowerCase (trim (name_group g)) = toLowerCase (trim (groupName s))"
  proof -
    from that have "isDuplicateName s"
      by (simp add: isDuplicateName_iff)
    then show ?thesis
      by (simp add: handleCreateGroup_def)
  qed
  have b: "(\<exists>ownerId. rows = [GroupRow (groupName s) ownerId])
         \<and> (\<forall>g \<in> set (userGroups s).
               toLowerCase (trim (name_group g)) \<noteq> toLowerCase (trim (groupName s)))"
    if "InsertInto ''groups'' rows \<in> set (snd (handleCreateGroup env s))" for rows
    using groups_insert_shape [OF that] by (simp add: isDuplicateName_iff)
  from a b show ?thesis by blast
qed

theorem duplicate_name_guard_witness:
  "(\<exists>g \<in> set (userGroups duplicateEntry).
      toLowerCase (trim (name_group g)) = toLowerCase (trim (groupName duplicateEntry)))
   \<and> errorMessage (fst (handleCreateGroup createOk duplicateEntry)) \<noteq> []
   \<and> snd (handleCreateGroup createOk duplicateEntry) = []
   \<and> InsertInto ''groups'' [GroupRow ''Knights'' ''u1'']
        \<in> set (snd (handleCreateGroup createOk freshName))
   \<and> toLowerCase (trim (name_group settlers)) \<noteq> toLowerCase (trim (groupName freshName))"
proof -
  have h: "\<exists>g \<in> set (userGroups duplicateEntry).
      toLowerCase (trim (name_group g)) = toLowerCase (trim (groupName duplicateEntry))"
    by (simp add: duplicateEntry_def settlers_def names_agree)
  have "snd (handleCreateGroup createOk freshName) =
      [GetSession, InsertInto ''groups'' [GroupRow ''Knights'' ''u1''],
       InsertInto ''group_players'' [JoinRow 7 ''p1'', JoinRow 7 ''p2''], GetSession]"
    using freshName_passes
    by (simp add: handleCreateGroup_def Let_def createdAndRefresh_def closeModal_def
        fetchUserGroups_def createOk_def noRefresh_def knights_def
        freshName_def alice_def bob_def initial_def)
  then have m: "InsertInto ''groups'' [GroupRow ''Knights'' ''u1'']
        \<in> set (snd (handleCreateGroup createOk freshName))"
    by simp
  have g: "settlers \<in> set (userGroups freshName)"
    by (simp add: freshName_def)
  from duplicate_name_guard [of duplicateEntry createOk] h
  have d: "errorMessage (fst (handleCreateGroup createOk duplicateEntry)) \<noteq> []
      \<and> snd (handleCreateGroup createOk duplicateEntry) = []"
    by blast
  from duplicate_name_guard [of freshName createOk] m g
  have "toLowerCase (trim (name_group settlers)) \<noteq> toLowerCase (trim (groupName freshName))"
    by blast
  with h d m show ?thesis
    by blast
qed

text \<open>
  Claim C5, as the specification states it, fails for one way of stopping before the
  group insert: \<^verbatim>\<open>await supabase.auth.getSession()\<close> stands outside the \<^verbatim>\<open>try\<close>
  block, so when that promise is rejected the handler ends after it has cleared the error
  message and before it sets one.
\<close>

theorem rejected_session_counterexample:
  "createSessionReply sessionRejected = Rejected
   \<and> filter isWrite (snd (handleCreateGroup sessionRejected freshName)) = []
   \<and> snd (handleCreateGroup sessionRejected freshName) = [GetSession]
   \<and> errorMessage (fst (handleCreateGroup sessionRejected freshName)) = []"
  using freshName_passes
  by (simp add: handleCreateGroup_def sessionRejected_def createOk_def)


text \<open>
  Claim C5, amended. \<^verbatim>\<open>handleCreateGroup\<close> issues no backend write exactly when it
  stops before the group insert: the name is empty, the name is a duplicate, reading the
  session yields an error, there is no session, or the session promise is rejected. In
  each of these states the entered name, the selected players and everything else but
  the error message are left as they were; in the first four an error message is set.
\<close>

theorem early_failure_atomic:
  "(groupName s = [] \<or> isDuplicateName s
      \<or> createSessionReply env = Resolved Failure
      \<or> createSessionReply env = Resolved (Success None) \<longrightarrow>
        errorMessage (fst (handleCreateGroup env s)) \<noteq> []
        \<and> filter isWrite (snd (handleCreateGroup env s)) = []
        \<and> groupName (fst (handleCreateGroup env s)) = groupName s
        \<and> selectedPlayers (fst (handleCreateGroup env s)) = selectedPlayers s
        \<and> fst (handleCreateGroup env s)
            = s\<lparr> errorMessage := errorMessage (fst (handleCreateGroup env s)) \<rparr>)
   \<and> (filter isWrite (snd (handleCreateGroup env s)) = [] \<longleftrightarrow>
        groupName s = [] \<or> isDuplicateName s
        \<or> createSessionReply env = Resolved Failure
        \<or> createSessionReply env = Resolved (Success None)
        \<or> createSessionReply env = Rejected)
   \<and> (filter isWrite (snd (handleCreateGroup env s)) = [] \<longrightarrow>
        groupName (fst (handleCreateGroup env s)) = groupName s
        \<and> selectedPlayers (fst (handleCreateGroup env s)) = selectedPlayers s
        \<and> fst (handleCreateGroup env s)
            = s\<lparr> errorMessage := errorMessage (fst (handleCreateGroup env s)) \<rparr>)"
proof -
  have four: "errorMessage (fst (handleCreateGroup env s)) \<noteq> []
        \<and> filter isWrite (snd (handleCreateGroup env s)) = []
        \<and> groupName (fst (handleCreateGroup env s)) = groupName s
        \<and> selectedPlayers (fst (handleCreateGroup env s)) = selectedPlayers s
        \<and> fst (handleCreateGroup env s)
            = s\<lparr> errorMessage := errorMessage (fst (handleCreateGroup env s)) \<rparr>"
    if "groupName s = [] \<or> isDuplicateName s
      \<or> createSessionReply env = Resolved Failure
      \<or> createSessionReply env = Resolved (Success None)"
    using that by (auto simp: handleCreateGroup_def)
  have stops: "filter isWrite (snd (handleCreateGroup env s)) = [] \<longleftrightarrow>
        groupName s = [] \<or> isDuplicateName s
        \<or> createSessionReply env = Resolved Failure
        \<or> createSessionReply env = Resolved (Success None)
        \<or> createSessionReply env = Rejected"
    by (rule create_stops_iff)
  have frame: "groupName (fst (handleCreateGroup env s)) = groupName s
        \<and> selectedPlayers (fst (handleCreateGroup env s)) = selectedPlayers s
        \<and> fst (handleCreateGroup env s)
            = s\<lparr> errorMessage := errorMessage (fst (handleCreateGroup env s)) \<rparr>"
    if w: "filter isWrite (snd (handleCreateGroup env s)) = []"
  proof -
    from create_frame [OF w]
    have e: "fst (handleCreateGroup env s)
            = s\<lparr> errorMessage := errorMessage (fst (handleCreateGroup env s)) \<rparr>" .
    have "groupName (s\<lparr> errorMessage := errorMessage (fst (handleCreateGroup env s)) \<rparr>) = groupName s"
      and "selectedPlayers (s\<lparr> errorMessage := errorMessage (fst (handleCreateGroup env s)) \<rparr>)
            = selectedPlayers s"
      by simp_all
    with e show ?thesis by metis
  qed
  from four stops frame show ?thesis by blast
qed

theorem early_failure_atomic_witness:
  "createSessionReply sessionLost = Resolved Failure
   \<and> errorMessage (fst (handleCreateGroup sessionLost freshName)) \<noteq> []
   \<and> filter isWrite (snd (handleCreateGroup sessionLost freshName)) = []
   \<and> groupName (fst (handleCreateGroup sessionLost freshName)) = ''Knights''
   \<and> selectedPlayers (fst (handleCreateGroup sessionLost freshName)) = [alice, bob]"
proof -
  have h: "createSessionReply sessionLost = Resolved Failure"
    by (simp add: sessionLost_def)
  with early_failure_atomic [of freshName sessionLost]
  have "errorMessage (fst (handleCreateGroup sessionLost freshName)) \<noteq> []
        \<and> filter isWrite (snd (handleCreateGroup sessionLost freshName)) = []
        \<and> groupName (fst (handleCreateGroup sessionLost freshName)) = groupName freshName
        \<and> selectedPlayers (fst (handleCreateGroup sessionLost freshName))
            = selectedPlayers freshName"
    by blast
  with h show ?thesis
    by (simp add: freshName_def)
qed

text \<open>
  Claim C2. Once the name has passed both checks and the session holds a user,
  the writes of \<^verbatim>\<open>handleCreateGroup\<close> are, in this order: one insert into
  \<^verbatim>\<open>groups\<close> of the single row (entered name, session user's id); then, only when that
  insert returned a created row and the selection is not empty, one insert into
  \<^verbatim>\<open>group_players\<close> of one row per selected player, pairing the created group's id with
  the player's id. In every other case, a failed group insert among them, there is no
  second write.
\<close>

theorem two_step_insert:
  assumes "groupName s \<noteq> []" and "\<not> isDuplicateName s"
    and "createSessionReply env = Resolved (Success (Some ownerId))"
  shows "filter isWrite (snd (handleCreateGroup env s)) =
     InsertInto ''groups'' [GroupRow (groupName s) ownerId] #
       (case groupInsertReply env of
          Resolved (Success (created # rest)) \<Rightarrow>
            if selectedPlayers s \<noteq> []
            then [InsertInto ''group_players''
                    (map (\<lambda>player. JoinRow (id_group created) (id_player player))
                       (selectedPlayers s))]
            else []
        | _ \<Rightarrow> [])"
  using assms
  by (simp add: handleCreateGroup_def Let_def createdAndRefresh_trace fetchUserGroups_reads
      unexpectedError_def split: awaited.splits response.splits list.splits)

theorem two_step_insert_witness:
  "groupName freshName \<noteq> [] \<and> \<not> isDuplicateName freshName
   \<and> createSessionReply createOk = Resolved (Success (Some ''u1''))
   \<and> filter isWrite (snd (handleCreateGroup createOk freshName)) =
       [InsertInto ''groups'' [GroupRow ''Knights'' ''u1''],
        InsertInto ''group_players'' [JoinRow 7 ''p1'', JoinRow 7 ''p2'']]"
proof -
  have s: "createSessionReply createOk = Resolved (Success (Some ''u1''))"
    by (simp add: createOk_def)
  from freshName_passes
  have a: "groupName freshName \<noteq> []" and b: "\<not> isDuplicateName freshName"
    by simp_all
  from two_step_insert [OF a b s] a b s show ?thesis
    by (simp add: createOk_def freshName_def knights_def alice_def bob_def)
qed

text \<open>
  Claim C3 says that after a failed join insert the user sees the message that the group
  was created but adding players failed. The code sets that message and then, on the same
  path, clears it and closes the modal that displays it: with two players selected, a
  successful group insert and a failing join insert, the handler ends with an empty error
  message and a closed modal.
\<close>

theorem join_failure_message_lost:
  "joinInsertReply joinFails = Resolved Failure
   \<and> filter isWrite (snd (handleCreateGroup joinFails freshName)) =
       [InsertInto ''groups'' [GroupRow ''Knights'' ''u1''],
        InsertInto ''group_players'' [JoinRow 7 ''p1'', JoinRow 7 ''p2'']]
   \<and> errorMessage (fst (handleCreateGroup joinFails freshName)) = []
   \<and> errorMessage (fst (handleCreateGroup joinFails freshName))
        \<noteq> ''Group created, but failed to add some players.''
   \<and> \<not> isModalOpen (fst (handleCreateGroup joinFails freshName))"
proof -
  have "handleCreateGroup joinFails freshName =
     (initial\<lparr> userGroups := [settlers] \<rparr>,
      [GetSession, InsertInto ''groups'' [GroupRow ''Knights'' ''u1''],
       InsertInto ''group_players'' [JoinRow 7 ''p1'', JoinRow 7 ''p2''], GetSession])"
    using freshName_passes
    by (simp add: handleCreateGroup_def Let_def createdAndRefresh_def closeModal_def
        fetchUserGroups_def joinFails_def createOk_def noRefresh_def knights_def
        freshName_def alice_def bob_def initial_def)
  then show ?thesis
    by (simp add: joinFails_def createOk_def initial_def)
qed

lemma trim_whitespace_only: "list_all isWhiteSpace w \<Longrightarrow> trim w = []"
  by (auto simp: trim_def list_all_iff dest: set_dropWhileD)

lemma handleCreateGroup_trace_nonempty:
  "groupName s \<noteq> [] \<Longrightarrow> \<not> isDuplicateName s \<Longrightarrow> snd (handleCreateGroup env s) \<noteq> []"
  by (simp add: handleCreateGroup_def Let_def createdAndRefresh_trace unexpectedError_def
      split: awaited.splits response.splits option.splits list.splits)

lemma handleCreateGroup_group_insert:
  "groupName s \<noteq> [] \<Longrightarrow> \<not> isDuplicateName s \<Longrightarrow>
   createSessionReply env = Resolved (Success (Some ownerId)) \<Longrightarrow>
   \<exists>rest. snd (handleCreateGroup env s)
     = GetSession # InsertInto ''groups'' [GroupRow (groupName s) ownerId] # rest"
  by (simp add: handleCreateGroup_def Let_def createdAndRefresh_trace unexpectedError_def
      split: awaited.splits response.splits option.splits list.splits)

text \<open>
  Claim C9. The empty-name check rejects the empty string and nothing else: the handler
  ends in the outcome of the \<^verbatim>\<open>Please enter a group name.\<close> branch exactly when the
  entered name is the empty string. A non-empty name made of white space only is not
  stopped there, and when no existing group's trimmed lowercased name is empty and the
  session holds a user, the group insert is issued with that name.
\<close>

theorem empty_name_check_exact:
  "(handleCreateGroup env s = (s\<lparr> errorMessage := ''Please enter a group name.'' \<rparr>, [])
      \<longleftrightarrow> groupName s = [])
   \<and> (groupName s \<noteq> [] \<and> list_all isWhiteSpace (groupName s)
        \<and> \<not> list_ex (\<lambda>g. toLowerCase (trim (name_group g)) = []) (userGroups s)
        \<and> createSessionReply env = Resolved (Success (Some ownerId))
      \<longrightarrow> InsertInto ''groups'' [GroupRow (groupName s) ownerId]
            \<in> set (snd (handleCreateGroup env s)))"
proof -
  have a: "handleCreateGroup env s = (s\<lparr> errorMessage := ''Please enter a group name.'' \<rparr>, [])"
    if "groupName s = []"
    using that by (simp add: handleCreateGroup_def)
  have b: "handleCreateGroup env s \<noteq> (s\<lparr> errorMessage := ''Please enter a group name.'' \<rparr>, [])"
    if ne: "groupName s \<noteq> []"
  proof (cases "isDuplicateName s")
    case True
    with ne have "errorMessage (fst (handleCreateGroup env s))
        = ''You are already in a group with that name. Please choose a different name.''"
      by (simp add: handleCreateGroup_def)
    then show ?thesis by auto
  next
    case False
    with ne have "snd (handleCreateGroup env s) \<noteq> []"
      by (rule handleCreateGroup_trace_nonempty)
    then show ?thesis by auto
  qed
  have c: "InsertInto ''groups'' [GroupRow (groupName s) ownerId]
             \<in> set (snd (handleCreateGroup env s))"
    if ne: "groupName s \<noteq> []" and ws: "list_all isWhiteSpace (groupName s)"
      and nd: "\<not> list_ex (\<lambda>g. toLowerCase (trim (name_group g)) = []) (userGroups s)"
      and se: "createSessionReply env = Resolved (Success (Some ownerId))"
  proof -
    from ws have "toLowerCase (trim (groupName s)) = []"
      by (simp add: trim_whitespace_only toLowerCase_def)
    with nd have "\<not> isDuplicateName s"
      by (simp add: isDuplicateName_def)
    from handleCreateGroup_group_insert [OF ne this se] show ?thesis by auto
  qed
  from a b c show ?thesis by blast
qed

theorem empty_name_check_exact_witness:
  "groupName blankName \<noteq> [] \<and> list_all isWhiteSpace (groupName blankName)
   \<and> \<not> list_ex (\<lambda>g. toLowerCase (trim (name_group g)) = []) (userGroups blankName)
   \<and> createSessionReply createOk = Resolved (Success (Some ''u1''))
   \<and> InsertInto ''groups'' [GroupRow ''   '' ''u1'']
       \<in> set (snd (handleCreateGroup createOk blankName))
   \<and> handleCreateGroup createOk blankName
       \<noteq> (blankName\<lparr> errorMessage := ''Please enter a group name.'' \<rparr>, [])"
  using empty_name_check_exact [of createOk blankName "''u1''"]
  by (simp add: blankName_def createOk_def initial_def isWhiteSpace_def)

subsection \<open>Merging the two queries\<close>

lemma accFind_present:
  "accFind (map Some acc) (Some g) = Returned (id_group g \<in> id_group ` set acc)"
  by (induction acc) auto

lemma reduceUnique_present:
  "distinct (map id_group acc) \<Longrightarrow>
   \<exists>r. reduceUnique (map Some acc) (map Some gs) = Returned (map Some r)
       \<and> distinct (map id_group r)
       \<and> id_group ` set r = id_group ` set acc \<union> id_group ` set gs"
proof (induction gs arbitrary: acc)
  case Nil
  then show ?case by auto
next
  case (Cons g gs)
  show ?case
  proof (cases "id_group g \<in> id_group ` set acc")
    case True
    with Cons.IH [OF Cons.prems] show ?thesis
      by (auto simp: accFind_present)
  next
    case False
    with Cons.prems have "distinct (map id_group (acc @ [g]))"
      by simp
    from Cons.IH [OF this] False show ?thesis
      by (auto simp: accFind_present)
  qed
qed

lemma groupsWithPlayers_present:
  "groupsWithPlayers (map Some r) = Returned (map withPlayers r)"
  by (induction r) simp_all

lemma withPlayers_id: "id_group (withPlayers g) = id_group g"
  by (simp add: withPlayers_def)

lemma map_Some_the: "None \<notin> set xs \<Longrightarrow> map (Some \<circ> the) xs = xs"
  by (induction xs) auto

lemma memberGroupList_ids:
  "id_group ` Option.these (set (memberGroupList memberGroups))
     = (case memberGroups of
          Failure \<Rightarrow> {}
        | Success rows \<Rightarrow> id_group ` Option.these (groups_joined ` set rows))"
  by (cases memberGroups) (simp_all add: memberGroupList_def)

lemma allGroups_present:
  assumes "None \<notin> set memberList"
  shows "allGroups ownerGroups memberList
           = map Some ((case ownerGroups of Failure \<Rightarrow> [] | Success owned \<Rightarrow> owned)
                        @ map the memberList)"
  using assms by (cases ownerGroups) (simp_all add: allGroups_def map_Some_the)

lemma these_set_present: "None \<notin> set xs \<Longrightarrow> Option.these (set xs) = set (map the xs)"
proof -
  assume "None \<notin> set xs"
  then have "map (Some \<circ> the) xs = xs"
    by (rule map_Some_the)
  then have "set xs = Some ` set (map the xs)"
    by (metis list.map_comp set_map)
  then show ?thesis
    by (simp only: these_image_Some_eq)
qed

text \<open>
  Claim C4, as the specification states it, fails for a query result in which a join row's
  embedded group is null: the \<^verbatim>\<open>reduce\<close> or the \<^verbatim>\<open>map\<close> after it reads a property of
  null and throws, \<^verbatim>\<open>setUserGroups\<close> is not reached, and the id of an owned group
  that the first query returned is not in the stored list.
\<close>

theorem fetchUserGroups_null_group_counterexample:
  "sessionReply nullEmbedded = Resolved (Success (Some ''u1''))
   \<and> ownerReply nullEmbedded = Resolved (Success [settlers])
   \<and> memberReply nullEmbedded = Resolved (Success [\<lparr> group_id = 9, groups_joined = None \<rparr>])
   \<and> snd (fetchUserGroups nullEmbedded initial) =
       [GetSession, SelectFrom ''groups'' (Eq ''owner_id'' ''u1''),
        SelectFrom ''group_players'' (Eq ''player_id'' ''u1'')]
   \<and> userGroups (fst (fetchUserGroups nullEmbedded initial)) = []
   \<and> id_group settlers \<notin> set (map id_group (userGroups (fst (fetchUserGroups nullEmbedded initial))))"
  by (simp add: nullEmbedded_def fetchUserGroups_def memberGroupList_def allGroups_def
      uniqueGroups_def initial_def Let_def)

text \<open>
  Claim C4, amended. When the session holds a user and both queries resolve (each with
  data or with an error), and no join row carries a null embedded group, the list
  \<^verbatim>\<open>fetchUserGroups\<close> stores has no two entries with the same group id, and its ids
  are exactly the ids of the groups in the two query results.
\<close>

theorem fetchUserGroups_merge_dedupe:
  assumes se: "sessionReply env = Resolved (Success (Some userId))"
    and ow: "ownerReply env = Resolved ownerGroups"
    and me: "memberReply env = Resolved memberGroups"
    and nn: "None \<notin> set (memberGroupList memberGroups)"
  shows "distinct (map id_group (userGroups (fst (fetchUserGroups env s))))
     \<and> set (map id_group (userGroups (fst (fetchUserGroups env s))))
         = (case ownerGroups of Failure \<Rightarrow> {} | Success owned \<Rightarrow> id_group ` set owned)
           \<union> (case memberGroups of
                 Failure \<Rightarrow> {}
               | Success rows \<Rightarrow> id_group ` Option.these (groups_joined ` set rows))"
proof -
  let ?members = "memberGroupList memberGroups"
  let ?all = "allGroups ownerGroups ?members"
  let ?owned = "case ownerGroups of Failure \<Rightarrow> [] | Success owned \<Rightarrow> owned"
  let ?os = "?owned @ map the ?members"
  from nn have all: "?all = map Some ?os"
    by (rule allGroups_present)
  have oids: "id_group ` set ?owned
      = (case ownerGroups of Failure \<Rightarrow> {} | Success owned \<Rightarrow> id_group ` set owned)"
    by (cases ownerGroups) simp_all
  from nn have "Option.these (set ?members) = set (map the ?members)"
    by (rule these_set_present)
  then have "id_group ` set (map the ?members) = id_group ` Option.these (set ?members)"
    by simp
  then have mids: "id_group ` set (map the ?members)
      = (case memberGroups of
           Failure \<Rightarrow> {}
         | Success rows \<Rightarrow> id_group ` Option.these (groups_joined ` set rows))"
    by (simp only: memberGroupList_ids)
  have ids: "id_group ` set ?os
      = (case ownerGroups of Failure \<Rightarrow> {} | Success owned \<Rightarrow> id_group ` set owned)
         \<union> (case memberGroups of
               Failure \<Rightarrow> {}
             | Success rows \<Rightarrow> id_group ` Option.these (groups_joined ` set rows))"
    by (simp only: set_append image_Un oids mids)
  from reduceUnique_present [of "[]" ?os] obtain r
    where r: "reduceUnique [] (map Some ?os) = Returned (map Some r)"
      and d: "distinct (map id_group r)" and i: "id_group ` set r = id_group ` set ?os"
    by auto
  from r all have u: "uniqueGroups ?all = Returned (map Some r)"
    by (simp only: uniqueGroups_def)
  from se ow me u have "userGroups (fst (fetchUserGroups env s)) = map withPlayers r"
    by (simp add: fetchUserGroups_def groupsWithPlayers_present)
  then have "map id_group (userGroups (fst (fetchUserGroups env s))) = map id_group r"
    by (simp add: withPlayers_id comp_def)
  with d i ids show ?thesis
    by (simp only: set_map)
qed

theorem fetchUserGroups_merge_dedupe_witness:
  "sessionReply bothQueries = Resolved (Success (Some ''u1''))
   \<and> ownerReply bothQueries = Resolved (Success [settlers, knights])
   \<and> memberReply bothQueries = Resolved (Success
       [\<lparr> group_id = 7, groups_joined = Some knights \<rparr>,
        \<lparr> group_id = 9, groups_joined = Some seafarers \<rparr>])
   \<and> None \<notin> set (memberGroupList (Success
       [\<lparr> group_id = 7, groups_joined = Some knights \<rparr>,
        \<lparr> group_id = 9, groups_joined = Some seafarers \<rparr>]))
   \<and> distinct (map id_group (userGroups (fst (fetchUserGroups bothQueries initial))))
   \<and> set (map id_group (userGroups (fst (fetchUserGroups bothQueries initial)))) = {1, 7, 9}"
proof -
  have a: "sessionReply bothQueries = Resolved (Success (Some ''u1''))"
    and b: "ownerReply bothQueries = Resolved (Success [settlers, knights])"
    and c: "memberReply bothQueries = Resolved (Success
       [\<lparr> group_id = 7, groups_joined = Some knights \<rparr>,
        \<lparr> group_id = 9, groups_joined = Some seafarers \<rparr>])"
    by (simp_all add: bothQueries_def)
  have n: "None \<notin> set (memberGroupList (Success
       [\<lparr> group_id = 7, groups_joined = Some knights \<rparr>,
        \<lparr> group_id = 9, groups_joined = Some seafarers \<rparr>]))"
    by (simp add: memberGroupList_def)
  from fetchUserGroups_merge_dedupe [OF a b c n, of initial]
  have p: "distinct (map id_group (userGroups (fst (fetchUserGroups bothQueries initial))))
   \<and> set (map id_group (userGroups (fst (fetchUserGroups bothQueries initial)))) = {1, 7, 9}"
    by (simp add: settlers_def knights_def seafarers_def insert_commute)
  from a b c n p show ?thesis
    by simp
qed

subsection \<open>Backend operations issued\<close>

lemma fetchUserGroups_ops: "list_all isReadOrInsert (snd (fetchUserGroups env s))"
  by (simp add: fetchUserGroups_def Let_def
      split: awaited.splits response.splits option.splits thrown.splits)

lemma avatarQueries_ops: "list_all isReadOrInsert (avatarQueries data)"
  by (induction data) (simp_all add: avatarQueries_def split: option.splits)

lemma fetchPlayers_ops: "list_all isReadOrInsert (snd (fetchPlayers query env s))"
  by (simp add: fetchPlayers_def Let_def avatarQueries_ops
      split: awaited.splits response.splits)

lemma handleCreateGroup_ops: "list_all isReadOrInsert (snd (handleCreateGroup env s))"
  by (simp add: handleCreateGroup_def Let_def createdAndRefresh_trace fetchUserGroups_ops
      split: awaited.splits response.splits option.splits list.splits)

lemma step_ops: "list_all isReadOrInsert (snd (step e s))"
  by (cases e)
    (simp_all add: fetchUserGroups_ops fetchPlayers_ops handleCreateGroup_ops openModal_def
      handleSearchChange_def)

lemma run_ops: "list_all isReadOrInsert (snd (run es s))"
proof (induction es arbitrary: s)
  case Nil
  show ?case by simp
next
  case (Cons e es)
  have "snd (run (e # es) s) = snd (step e s) @ snd (run es (fst (step e s)))"
    by (simp add: split_beta)
  with Cons.IH [of "fst (step e s)"] step_ops [of e s] show ?case
    by simp
qed

text \<open>
  Claim C6. In every execution of the component, from any state and for any sequence of
  events and backend answers, each backend operation issued reads the session, selects
  from a table or inserts into a table; none is an update or a delete, so the component
  asks the backend to change or remove no existing row.
\<close>

theorem reads_and_inserts_only:
  "\<forall>op \<in> set (snd (run es s)). isReadOrInsert op"
  using run_ops [of es s] by (simp add: list_all_iff)

theorem reads_and_inserts_only_witness:
  "InsertInto ''group_players'' [JoinRow 7 ''p1''] \<in> set (snd (run sampleRun initial))
   \<and> isReadOrInsert (InsertInto ''group_players'' [JoinRow 7 ''p1''])"
proof -
  have "InsertInto ''group_players'' [JoinRow 7 ''p1''] \<in> set (snd (run sampleRun initial))"
    by (simp add: sampleRun_def initial_def noRefresh_def avatarsFound_def createOk_def
        knights_def alice_def bob_def carol_def fetchUserGroups_def openModal_def
        fetchPlayers_def withAvatar_def orNull_def avatarQueries_def onGroupNameChange_def
        handleAddPlayer_def handleCreateGroup_def isDuplicateName_def createdAndRefresh_def
        closeModal_def Let_def)
  with reads_and_inserts_only [of sampleRun initial] show ?thesis
    by blast
qed

subsection \<open>Avatars\<close>

lemma promiseAll_map_Resolved:
  "(\<And>x. x \<in> set xs \<Longrightarrow> f x = Resolved (g x)) \<Longrightarrow>
   promiseAll (map f xs) = Resolved (map g xs)"
  by (induction xs) simp_all

text \<open>
  Claim C7, as the specification states it, fails: when the users-table row of a player
  holds the empty string as \<^verbatim>\<open>avatar_url\<close>, the lookup yields a row, yet the stored
  player carries null, not that row's value.
\<close>

theorem fetchPlayers_empty_avatar_counterexample:
  "playersReply emptyAvatar = Resolved (Success [alice])
   \<and> user_id alice = Some ''u1''
   \<and> avatarReply emptyAvatar ''u1'' = Resolved (Some (Some []))
   \<and> avatar_url (statedPlayer (avatarReply emptyAvatar) alice) = Some []
   \<and> map avatar_url (players (fst (fetchPlayers [] emptyAvatar initial))) = [None]
   \<and> players (fst (fetchPlayers [] emptyAvatar initial))
        \<noteq> map (statedPlayer (avatarReply emptyAvatar)) [alice]"
  by (simp add: emptyAvatar_def alice_def statedPlayer_def fetchPlayers_def withAvatar_def
      orNull_def Let_def)

text \<open>
  Claim C7, amended. When the players query succeeds and every avatar lookup completes,
  the stored list has the length and the order of the query result, and at each position:
  a player with a non-empty owning-user identifier is stored with \<^verbatim>\<open>avatar_url\<close> set to
  the \<^verbatim>\<open>avatar_url\<close> of the users-table row when that is a non-empty string, and to
  null otherwise (no row, or a null or empty \<^verbatim>\<open>avatar_url\<close>); a player with no or an
  empty owning-user identifier is stored unchanged.
\<close>

theorem fetchPlayers_avatars:
  assumes ok: "playersReply env = Resolved (Success data)"
    and res: "\<forall>player \<in> set data. \<forall>uid.
                user_id player = Some uid \<and> uid \<noteq> [] \<longrightarrow> avatarReply env uid \<noteq> Rejected"
  shows "length (players (fst (fetchPlayers query env s))) = length data
    \<and> (\<forall>i < length data.
          players (fst (fetchPlayers query env s)) ! i =
            (case user_id (data ! i) of
               None \<Rightarrow> data ! i
             | Some uid \<Rightarrow>
                 if uid = [] then data ! i
                 else (data ! i)\<lparr> avatar_url :=
                        (case avatarReply env uid of
                           Resolved (Some (Some url)) \<Rightarrow> if url = [] then None else Some url
                         | _ \<Rightarrow> None) \<rparr>))"
proof -
  let ?g = "\<lambda>player. case user_id player of
               None \<Rightarrow> player
             | Some uid \<Rightarrow>
                 if uid = [] then player
                 else player\<lparr> avatar_url :=
                        (case avatarReply env uid of
                           Resolved (Some (Some url)) \<Rightarrow> if url = [] then None else Some url
                         | _ \<Rightarrow> None) \<rparr>"
  have each: "withAvatar (avatarReply env) player = Resolved (?g player)"
    if "player \<in> set data" for player
    using that res
    by (auto simp: withAvatar_def orNull_def split: option.splits awaited.splits)
  then have "promiseAll (map (withAvatar (avatarReply env)) data) = Resolved (map ?g data)"
    by (rule promiseAll_map_Resolved)
  with ok have "players (fst (fetchPlayers query env s)) = map ?g data"
    by (simp add: fetchPlayers_def Let_def)
  then show ?thesis
    by simp
qed

theorem fetchPlayers_avatars_witness:
  "playersReply avatarsFound = Resolved (Success [alice, bob, carol])
   \<and> avatarReply avatarsFound ''u1'' = Resolved (Some (Some ''a.png''))
   \<and> length (players (fst (fetchPlayers ''a'' avatarsFound initial))) = 3
   \<and> (0::nat) < length [alice, bob, carol]
   \<and> players (fst (fetchPlayers ''a'' avatarsFound initial)) ! 0
       = alice\<lparr> avatar_url := Some ''a.png'' \<rparr>
   \<and> players (fst (fetchPlayers ''a'' avatarsFound initial)) ! 1 = bob
   \<and> players (fst (fetchPlayers ''a'' avatarsFound initial)) ! 2 = carol"
proof -
  have a: "playersReply avatarsFound = Resolved (Success [alice, bob, carol])"
    by (simp add: avatarsFound_def)
  have b: "\<forall>player \<in> set [alice, bob, carol]. \<forall>uid.
         user_id player = Some uid \<and> uid \<noteq> [] \<longrightarrow> avatarReply avatarsFound uid \<noteq> Rejected"
    by (simp add: avatarsFound_def)
  note t = fetchPlayers_avatars [OF a b, of "''a''" initial]
  from t have len: "length (players (fst (fetchPlayers ''a'' avatarsFound initial))) = 3"
    by simp
  from t have p0: "players (fst (fetchPlayers ''a'' avatarsFound initial)) ! 0
       = alice\<lparr> avatar_url := Some ''a.png'' \<rparr>"
    by (simp add: alice_def avatarsFound_def)
  from t have p1: "players (fst (fetchPlayers ''a'' avatarsFound initial)) ! 1 = bob"
    by (simp add: bob_def)
  from t have p2: "players (fst (fetchPlayers ''a'' avatarsFound initial)) ! 2 = carol"
    by (simp add: carol_def)
  have c: "avatarReply avatarsFound ''u1'' = Resolved (Some (Some ''a.png''))"
    by (simp add: avatarsFound_def)
  from a c len p0 p1 p2 show ?thesis
    by simp
qed

end
